theory Spec2Isabelle
  imports Main
begin

section \<open>JavaScript values and errors\<close>

text \<open>
  Errors raised by the two controllers. \<open>IndexAlreadyUsed i\<close> stands for
  \<^verbatim>\<open>new Error('Index already used in storage: ' + index)\<close>, \<open>UnknownTool n\<close> for
  \<^verbatim>\<open>new Error('Unknown tool: \'' + name + '\'')\<close>, and \<open>TypeError\<close> for the
  exception the engine raises when a property is read from, written to or called on
  \<^verbatim>\<open>undefined\<close> or \<^verbatim>\<open>null\<close>.
\<close>

datatype js_error = IndexAlreadyUsed int | UnknownTool string | TypeError

text \<open>
  Meta data are plain JavaScript objects: an ordered list of properties. Reading a
  property that the object does not have gives \<^verbatim>\<open>undefined\<close>.
\<close>

datatype jsval = Undefined | Str string | Num int | Obj "(string \<times> jsval) list"

type_synonym jsobj = "(string \<times> jsval) list"

definition property :: "jsobj \<Rightarrow> string \<Rightarrow> jsval" where
  "property obj k = (case map_of obj k of None \<Rightarrow> Undefined | Some v \<Rightarrow> v)"

section \<open>The data controller (src/index.js, class DataController)\<close>

text \<open>
  The store \<^verbatim>\<open>#data\<close> is used as a dictionary from the numeric index to the
  entry: a lookup finds what was stored under the index and nothing else.
  Function objects are compared by identity in JavaScript. Every closure carries the
  number it was given when it was created; the counter \<open>dc_next_fn\<close> of the state
  hands the numbers out. \<open>FireEvent n i\<close> is the closure that \<^verbatim>\<open>#getFireEvent(i)\<close>
  returns.
\<close>

datatype fire_callback = FireEvent nat int

text \<open>
  Image objects live in a heap indexed by reference. Modelled from the spec: the
  Image class is not part of the given sources; of its contract only
  \<^verbatim>\<open>appendSlice\<close> (the receiver grows by the given slice) and
  \<^verbatim>\<open>addEventListener\<close> (type-keyed registration, kept in registration order) are used.
\<close>

record image_obj =
  slices :: "nat list"
  image_listeners :: "(string \<times> fire_callback) list"

record data_entry =
  entry_image :: nat
  meta :: jsobj

record data_controller =
  data :: "int \<rightharpoonup> data_entry"
  listenerHandler :: "(string \<times> nat) list"
  images :: "nat \<Rightarrow> image_obj"
  dc_next_fn :: nat

definition new_DataController :: "(nat \<Rightarrow> image_obj) \<Rightarrow> data_controller" where
  "new_DataController heap =
     \<lparr>data = Map.empty, listenerHandler = [], images = heap, dc_next_fn = 0\<rparr>"

definition length_dc :: "data_controller \<Rightarrow> nat" where
  "length_dc s = card (dom (data s))"

definition reset :: "data_controller \<Rightarrow> data_controller" where
  "reset s = s\<lparr>data := Map.empty\<rparr>"

definition get :: "int \<Rightarrow> data_controller \<Rightarrow> data_entry option" where
  "get index s = data s index"

definition image_addEventListener ::
  "nat \<Rightarrow> string \<Rightarrow> fire_callback \<Rightarrow> data_controller \<Rightarrow> data_controller" where
  "image_addEventListener img ty cb s =
     s\<lparr>images := (images s)
         (img := (images s img)\<lparr>image_listeners := image_listeners (images s img) @ [(ty, cb)]\<rparr>)\<rparr>"

definition image_appendSlice :: "nat \<Rightarrow> nat \<Rightarrow> data_controller \<Rightarrow> data_controller" where
  "image_appendSlice img rhs s =
     s\<lparr>images := (images s)(img := (images s img)\<lparr>slices := slices (images s img) @ [rhs]\<rparr>)\<rparr>"

definition getFireEvent :: "int \<Rightarrow> data_controller \<Rightarrow> fire_callback \<times> data_controller" where
  "getFireEvent index s = (FireEvent (dc_next_fn s) index, s\<lparr>dc_next_fn := Suc (dc_next_fn s)\<rparr>)"

text \<open>
  \<^verbatim>\<open>#getMetaObject\<close>: the argument \<open>dumpToObject\<close> stands for
  \<^verbatim>\<open>new DicomElementsWrapper(meta).dumpToObject()\<close>, which is not part of the given
  sources.
\<close>

definition getMetaObject :: "(jsobj \<Rightarrow> jsobj) \<Rightarrow> jsobj \<Rightarrow> jsobj" where
  "getMetaObject dumpToObject m =
     (if property m ''x00020010'' \<noteq> Undefined then dumpToObject m else m)"

definition addNew ::
  "(jsobj \<Rightarrow> jsobj) \<Rightarrow> int \<Rightarrow> nat \<Rightarrow> jsobj \<Rightarrow> data_controller
     \<Rightarrow> (js_error + unit) \<times> data_controller" where
  "addNew dumpToObject index img m s =
     (if data s index \<noteq> None then (Inl (IndexAlreadyUsed index), s)
      else
        let s1 = s\<lparr>data := (data s)(index \<mapsto> \<lparr>entry_image = img, meta = getMetaObject dumpToObject m\<rparr>)\<rparr>;
            (cb, s2) = getFireEvent index s1
        in (Inr (), image_addEventListener img ''imagechange'' cb s2))"

text \<open>
  \<^verbatim>\<open>update\<close>: the argument \<open>mergeObjects\<close> stands for the function of that name
  imported from utils/operator, which is not part of the given sources.
\<close>

definition update ::
  "(jsobj \<Rightarrow> jsobj) \<Rightarrow> (jsobj \<Rightarrow> jsobj \<Rightarrow> string \<Rightarrow> string \<Rightarrow> jsobj)
     \<Rightarrow> int \<Rightarrow> nat \<Rightarrow> jsobj \<Rightarrow> data_controller \<Rightarrow> (js_error + unit) \<times> data_controller" where
  "update dumpToObject mergeObjects index img m s =
     (case data s index of
        None \<Rightarrow> (Inl TypeError, s)
      | Some dataToUpdate \<Rightarrow>
          let s1 = image_appendSlice (entry_image dataToUpdate) img s;
              idKey = (if property m ''x00020010'' \<noteq> Undefined then ''InstanceNumber'' else ''imageUid'')
          in (Inr (),
              s1\<lparr>data := (data s1)(index \<mapsto>
                    dataToUpdate\<lparr>meta := mergeObjects (meta dataToUpdate)
                                           (getMetaObject dumpToObject m) idKey ''value''\<rparr>)\<rparr>))"

text \<open>
  Modelled from the spec: the ListenerHandler class (utils/listen) is not part of
  the given sources. It keeps the listeners by event type in registration order;
  \<^verbatim>\<open>add\<close> registers a callback and \<^verbatim>\<open>remove\<close> takes it out. A callback
  of a client is given by its identity.
\<close>

definition addEventListener :: "string \<Rightarrow> nat \<Rightarrow> data_controller \<Rightarrow> data_controller" where
  "addEventListener ty callback s = s\<lparr>listenerHandler := listenerHandler s @ [(ty, callback)]\<rparr>"

definition removeEventListener :: "string \<Rightarrow> nat \<Rightarrow> data_controller \<Rightarrow> data_controller" where
  "removeEventListener ty callback s =
     s\<lparr>listenerHandler := filter (\<lambda>l. l \<noteq> (ty, callback)) (listenerHandler s)\<rparr>"

section \<open>The toolbox controller (class ToolboxController)\<close>

subsection \<open>Events, tools and callbacks\<close>

text \<open>
  An input event: its \<^verbatim>\<open>type\<close>, the \<^verbatim>\<open>button\<close> and \<^verbatim>\<open>buttons\<close> properties
  (\<open>None\<close> where the event has no such property, as for touch and key events) and
  the offsets \<^verbatim>\<open>_x\<close>, \<^verbatim>\<open>_y\<close>, \<^verbatim>\<open>_x1\<close>, \<^verbatim>\<open>_y1\<close> that the dispatcher writes
  into it. Coordinates are only copied, never computed with.
\<close>

record event =
  ev_type :: string
  button :: "int option"
  buttons :: "int option"
  ev_x :: "int option"
  ev_y :: "int option"
  ev_x1 :: "int option"
  ev_y1 :: "int option"

text \<open>
  A tool object: its identity and the event handlers it declares, by event type
  (the value is the identity of the handler function). The methods
  \<^verbatim>\<open>init\<close>, \<^verbatim>\<open>activate\<close> and \<^verbatim>\<open>setFeatures\<close> belong to every tool; the tool
  classes are not part of the given sources.
\<close>

record tool =
  tool_id :: nat
  handlers :: "(string \<times> nat) list"

text \<open>
  The tool list is a plain object, so \<^verbatim>\<open>toolList[name]\<close> finds the tool stored
  under the name and, for a name that is not stored, the member of that name that
  every plain object inherits from \<^verbatim>\<open>Object.prototype\<close>, if there is one. Such
  a member is a function (for \<^verbatim>\<open>__proto__\<close> an object): its type is not
  \<^verbatim>\<open>'undefined'\<close>, it is truthy, and it has neither the methods of a tool nor a
  handler for an event type.
\<close>

datatype js_object = ToolObject tool | PrototypeMember string

definition object_prototype_names :: "string list" where
  "object_prototype_names =
     [''constructor'', ''hasOwnProperty'', ''isPrototypeOf'', ''propertyIsEnumerable'',
      ''toLocaleString'', ''toString'', ''valueOf'', ''__proto__'', ''__defineGetter__'',
      ''__defineSetter__'', ''__lookupGetter__'', ''__lookupSetter__'']"

definition lookup_tool :: "(string \<times> tool) list \<Rightarrow> string \<Rightarrow> js_object option" where
  "lookup_tool tools name =
     (case map_of tools name of
        Some t \<Rightarrow> Some (ToolObject t)
      | None \<Rightarrow> if name \<in> set object_prototype_names then Some (PrototypeMember name) else None)"

text \<open>What the controller calls on its collaborators, in call order.\<close>

datatype call =
    ToolInit nat
  | Activate nat bool
  | SetFeatures nat jsobj
  | HandlerCall nat event

text \<open>
  The function objects the controller creates, each with the number it got at
  creation: the three dispatcher closures of \<^verbatim>\<open>#getOnMouch\<close> and the arrow
  function \<^verbatim>\<open>(event) => {event.preventDefault()}\<close>.
\<close>

datatype callback = OnKeydown nat | OnTouchend nat | OnMouch nat | PreventDefault nat

text \<open>
  Modelled from the spec: the layer classes are not part of the given sources. A
  layer (RenderSurface) has an id, interaction capture that \<^verbatim>\<open>bindInteraction\<close>
  enables and \<^verbatim>\<open>unbindInteraction\<close> disables, and type-keyed listener
  registration: \<^verbatim>\<open>addEventListener\<close> registers the handler,
  \<^verbatim>\<open>removeEventListener\<close> removes it.
\<close>

record layer_obj =
  layer_id :: string
  interaction :: bool
  layer_listeners :: "(string \<times> callback) list"

text \<open>
  The state of the controller (the four private fields) and of what it acts on:
  the counter for new function objects, the activation flags of the tools, the
  trace of calls, the heap of layer objects, the listeners of the elements of the
  document by element id, and the listeners of the window. The selection holds
  whatever \<^verbatim>\<open>toolList[name]\<close> gave, a tool or an inherited member. The callback
  store and the bound layers are keyed by layer ids, event types and group ids,
  which come from the layer classes and from the constant of event names; for
  these keys a lookup finds the entries that were put there.
\<close>

record toolbox =
  toolList :: "(string \<times> tool) list"
  selectedTool :: "js_object option"
  callbackStore :: "string \<rightharpoonup> (string \<rightharpoonup> callback)"
  boundLayers :: "string \<rightharpoonup> nat"
  next_fn :: nat
  active :: "nat \<Rightarrow> bool"
  calls :: "call list"
  layers :: "nat \<Rightarrow> layer_obj"
  document :: "string \<rightharpoonup> (string \<times> callback) list"
  window_listeners :: "(string \<times> callback) list"

text \<open>
  \<^verbatim>\<open>new ToolboxController(toolList)\<close>, in an environment given by the layer
  heap and the document (element id to the listeners registered on the element).
\<close>

definition new_ToolboxController ::
  "(string \<times> tool) list \<Rightarrow> (nat \<Rightarrow> layer_obj) \<Rightarrow> (string \<rightharpoonup> (string \<times> callback) list) \<Rightarrow> toolbox" where
  "new_ToolboxController tools heap doc =
     \<lparr>toolList = tools, selectedTool = None, callbackStore = Map.empty, boundLayers = Map.empty,
      next_fn = 0, active = (\<lambda>_. False), calls = [], layers = heap, document = doc,
      window_listeners = []\<rparr>"

subsection \<open>Collaborators\<close>

text \<open>
  Modelled from the spec: a tool carries an activation flag that \<^verbatim>\<open>activate(b)\<close>
  sets; \<^verbatim>\<open>init\<close>, \<^verbatim>\<open>setFeatures\<close> and the event handlers act on application state
  that is out of scope, so only the call is recorded.
\<close>

definition tool_init :: "tool \<Rightarrow> toolbox \<Rightarrow> toolbox" where
  "tool_init t s = s\<lparr>calls := calls s @ [ToolInit (tool_id t)]\<rparr>"

definition tool_activate :: "tool \<Rightarrow> bool \<Rightarrow> toolbox \<Rightarrow> toolbox" where
  "tool_activate t b s =
     s\<lparr>active := (active s)(tool_id t := b), calls := calls s @ [Activate (tool_id t) b]\<rparr>"

definition tool_setFeatures :: "tool \<Rightarrow> jsobj \<Rightarrow> toolbox \<Rightarrow> toolbox" where
  "tool_setFeatures t list s = s\<lparr>calls := calls s @ [SetFeatures (tool_id t) list]\<rparr>"

text \<open>
  A method call and a handler lookup on what the selection or the tool list gave:
  calling \<^verbatim>\<open>activate\<close> or \<^verbatim>\<open>setFeatures\<close> on an inherited member raises, as
  the member has no such method, and reading its property for an event type gives
  \<^verbatim>\<open>undefined\<close>.
\<close>

definition object_activate ::
  "js_object \<Rightarrow> bool \<Rightarrow> toolbox \<Rightarrow> (js_error + unit) \<times> toolbox" where
  "object_activate obj b s =
     (case obj of
        ToolObject t \<Rightarrow> (Inr (), tool_activate t b s)
      | PrototypeMember _ \<Rightarrow> (Inl TypeError, s))"

definition object_setFeatures ::
  "js_object \<Rightarrow> jsobj \<Rightarrow> toolbox \<Rightarrow> (js_error + unit) \<times> toolbox" where
  "object_setFeatures obj list s =
     (case obj of
        ToolObject t \<Rightarrow> (Inr (), tool_setFeatures t list s)
      | PrototypeMember _ \<Rightarrow> (Inl TypeError, s))"

definition object_handler :: "js_object \<Rightarrow> string \<Rightarrow> nat option" where
  "object_handler obj eventType =
     (case obj of
        ToolObject t \<Rightarrow> map_of (handlers t) eventType
      | PrototypeMember _ \<Rightarrow> None)"

definition call_handler :: "nat \<Rightarrow> event \<Rightarrow> toolbox \<Rightarrow> toolbox" where
  "call_handler func ev s = s\<lparr>calls := calls s @ [HandlerCall func ev]\<rparr>"

definition layer_getId :: "nat \<Rightarrow> toolbox \<Rightarrow> string" where
  "layer_getId layer s = layer_id (layers s layer)"

definition layer_bindInteraction :: "nat \<Rightarrow> toolbox \<Rightarrow> toolbox" where
  "layer_bindInteraction layer s =
     s\<lparr>layers := (layers s)(layer := (layers s layer)\<lparr>interaction := True\<rparr>)\<rparr>"

definition layer_unbindInteraction :: "nat \<Rightarrow> toolbox \<Rightarrow> toolbox" where
  "layer_unbindInteraction layer s =
     s\<lparr>layers := (layers s)(layer := (layers s layer)\<lparr>interaction := False\<rparr>)\<rparr>"

definition layer_addEventListener :: "nat \<Rightarrow> string \<Rightarrow> callback \<Rightarrow> toolbox \<Rightarrow> toolbox" where
  "layer_addEventListener layer ty cb s =
     s\<lparr>layers := (layers s)
         (layer := (layers s layer)\<lparr>layer_listeners := layer_listeners (layers s layer) @ [(ty, cb)]\<rparr>)\<rparr>"

definition layer_removeEventListener :: "nat \<Rightarrow> string \<Rightarrow> callback \<Rightarrow> toolbox \<Rightarrow> toolbox" where
  "layer_removeEventListener layer ty cb s =
     s\<lparr>layers := (layers s)
         (layer := (layers s layer)
            \<lparr>layer_listeners := filter (\<lambda>l. l \<noteq> (ty, cb)) (layer_listeners (layers s layer))\<rparr>)\<rparr>"

text \<open>
  The listener list of a DOM event target: registering a listener that is already
  registered for the type (the same function object) does nothing, and removing
  takes out the registration of that function object.
\<close>

definition dom_add :: "string \<times> callback \<Rightarrow> (string \<times> callback) list \<Rightarrow> (string \<times> callback) list" where
  "dom_add l ls = (if l \<in> set ls then ls else ls @ [l])"

definition dom_remove :: "string \<times> callback \<Rightarrow> (string \<times> callback) list \<Rightarrow> (string \<times> callback) list" where
  "dom_remove l ls = filter (\<lambda>l'. l' \<noteq> l) ls"

subsection \<open>Tool selection\<close>

definition getToolList :: "toolbox \<Rightarrow> (string \<times> tool) list" where
  "getToolList s = toolList s"

text \<open>
  \<^verbatim>\<open>typeof this.getToolList()[name] !== 'undefined'\<close>: true for a stored tool
  and for an inherited member.
\<close>

definition hasTool :: "string \<Rightarrow> toolbox \<Rightarrow> bool" where
  "hasTool name s = (lookup_tool (getToolList s) name \<noteq> None)"

definition getSelectedTool :: "toolbox \<Rightarrow> js_object option" where
  "getSelectedTool s = selectedTool s"

text \<open>
  \<^verbatim>\<open>return this.getSelectedTool()[eventType]\<close>: the result \<open>Inr None\<close> is the
  value \<^verbatim>\<open>undefined\<close>; reading a property of \<^verbatim>\<open>null\<close> raises.
\<close>

definition getSelectedToolEventHandler :: "string \<Rightarrow> toolbox \<Rightarrow> js_error + nat option" where
  "getSelectedToolEventHandler eventType s =
     (case getSelectedTool s of
        None \<Rightarrow> Inl TypeError
      | Some obj \<Rightarrow> Inr (object_handler obj eventType))"

text \<open>
  \<^verbatim>\<open>setSelectedTool(name)\<close>: a call of \<^verbatim>\<open>activate\<close> that raises ends the
  method in the state reached so far.
\<close>

definition setSelectedTool :: "string \<Rightarrow> toolbox \<Rightarrow> (js_error + unit) \<times> toolbox" where
  "setSelectedTool name s =
     (if \<not> hasTool name s then (Inl (UnknownTool name), s)
      else
        (case (case selectedTool s of
                 Some old \<Rightarrow> object_activate old False s
               | None \<Rightarrow> (Inr (), s)) of
           (Inl e, s1) \<Rightarrow> (Inl e, s1)
         | (Inr _, s1) \<Rightarrow>
             let s2 = s1\<lparr>selectedTool := lookup_tool (toolList s1) name\<rparr>
             in (case selectedTool s2 of
                   Some new \<Rightarrow> object_activate new True s2
                 | None \<Rightarrow> (Inl TypeError, s2))))"

definition setToolFeatures :: "jsobj \<Rightarrow> toolbox \<Rightarrow> (js_error + unit) \<times> toolbox" where
  "setToolFeatures list s =
     (case getSelectedTool s of
        Some obj \<Rightarrow> object_setFeatures obj list s
      | None \<Rightarrow> (Inr (), s))"

subsection \<open>The dispatcher cache\<close>

text \<open>
  \<^verbatim>\<open>#getOnMouch(layerId, eventType)\<close>: returns the callback and the state, in which
  the callback store may have grown. A new function object is made (and the
  counter advanced) only in the branch that finds no stored callback.
\<close>

definition getOnMouch :: "string \<Rightarrow> string \<Rightarrow> toolbox \<Rightarrow> callback \<times> toolbox" where
  "getOnMouch layerId eventType s =
     (let s1 = (if callbackStore s layerId = None
                then s\<lparr>callbackStore := (callbackStore s)(layerId \<mapsto> Map.empty)\<rparr> else s);
          inner = (case callbackStore s1 layerId of Some m \<Rightarrow> m | None \<Rightarrow> Map.empty)
      in (case inner eventType of
            Some cb \<Rightarrow> (cb, s1)
          | None \<Rightarrow>
              let callback =
                    (if eventType = ''keydown'' then OnKeydown (next_fn s1)
                     else if eventType = ''touchend'' then OnTouchend (next_fn s1)
                     else OnMouch (next_fn s1))
              in (callback,
                  s1\<lparr>callbackStore := (callbackStore s1)(layerId \<mapsto> inner(eventType \<mapsto> callback)),
                     next_fn := Suc (next_fn s1)\<rparr>)))"

subsection \<open>Binding and unbinding layers\<close>

text \<open>
  The loops over \<^verbatim>\<open>InteractionEventNames\<close>. That constant is imported from
  gui/generic, which is not part of the given sources; it is the argument
  \<open>names\<close> of the functions below.
\<close>

fun add_listeners :: "string list \<Rightarrow> nat \<Rightarrow> toolbox \<Rightarrow> toolbox" where
  "add_listeners [] layer s = s"
| "add_listeners (n # ns) layer s =
     (let (cb, s1) = getOnMouch (layer_getId layer s) n s
      in add_listeners ns layer (layer_addEventListener layer n cb s1))"

fun remove_listeners :: "string list \<Rightarrow> nat \<Rightarrow> toolbox \<Rightarrow> toolbox" where
  "remove_listeners [] layer s = s"
| "remove_listeners (n # ns) layer s =
     (let (cb, s1) = getOnMouch (layer_getId layer s) n s
      in remove_listeners ns layer (layer_removeEventListener layer n cb s1))"

text \<open>
  \<^verbatim>\<open>document.getElementById(id)\<close> is \<^verbatim>\<open>null\<close> when the document has no such
  element, and the method call on it raises before the arrow function is
  evaluated. Otherwise the arrow function is a new function object each time the
  expression is evaluated, in \<^verbatim>\<open>bindLayer\<close> and in \<^verbatim>\<open>#unbindLayer\<close>.
\<close>

definition unbindLayer :: "string list \<Rightarrow> nat \<Rightarrow> toolbox \<Rightarrow> (js_error + unit) \<times> toolbox" where
  "unbindLayer names layer s =
     (let s1 = layer_unbindInteraction layer s;
          s2 = remove_listeners names layer s1
      in (case document s2 (layer_getId layer s2) of
            None \<Rightarrow> (Inl TypeError, s2)
          | Some ls \<Rightarrow>
              (Inr (),
               s2\<lparr>document := (document s2)
                      (layer_getId layer s2 \<mapsto> dom_remove (''contextmenu'', PreventDefault (next_fn s2)) ls),
                  next_fn := Suc (next_fn s2)\<rparr>)))"

definition bindLayer ::
  "string list \<Rightarrow> nat \<Rightarrow> string \<Rightarrow> toolbox \<Rightarrow> (js_error + unit) \<times> toolbox" where
  "bindLayer names layer layerGroupDivId s =
     (case (case boundLayers s layerGroupDivId of
              Some old \<Rightarrow> unbindLayer names old s
            | None \<Rightarrow> (Inr (), s)) of
        (Inl e, s0) \<Rightarrow> (Inl e, s0)
      | (Inr _, s0) \<Rightarrow>
          let s1 = layer_bindInteraction layer s0;
              s2 = add_listeners names layer s1
          in (case document s2 (layer_getId layer s2) of
                None \<Rightarrow> (Inl TypeError, s2)
              | Some ls \<Rightarrow>
                  (Inr (),
                   s2\<lparr>document := (document s2)
                          (layer_getId layer s2 \<mapsto> dom_add (''contextmenu'', PreventDefault (next_fn s2)) ls),
                      next_fn := Suc (next_fn s2),
                      boundLayers := (boundLayers s2)(layerGroupDivId \<mapsto> layer)\<rparr>)))"

text \<open>
  The native context menu of an element is suppressed while a listener that calls
  \<^verbatim>\<open>preventDefault\<close> is registered on it for \<^verbatim>\<open>contextmenu\<close>.
\<close>

fun is_PreventDefault :: "callback \<Rightarrow> bool" where
  "is_PreventDefault (PreventDefault _) = True"
| "is_PreventDefault _ = False"

definition contextmenu_listeners :: "string \<Rightarrow> toolbox \<Rightarrow> (string \<times> callback) list" where
  "contextmenu_listeners elemId s =
     (case document s elemId of
        None \<Rightarrow> []
      | Some ls \<Rightarrow> filter (\<lambda>l. fst l = ''contextmenu'' \<and> is_PreventDefault (snd l)) ls)"

definition contextmenu_suppressed :: "string \<Rightarrow> toolbox \<Rightarrow> bool" where
  "contextmenu_suppressed elemId s = (contextmenu_listeners elemId s \<noteq> [])"

subsection \<open>Initialisation\<close>

definition window_addEventListener :: "string \<Rightarrow> callback \<Rightarrow> toolbox \<Rightarrow> toolbox" where
  "window_addEventListener ty cb s = s\<lparr>window_listeners := dom_add (ty, cb) (window_listeners s)\<rparr>"

definition init :: "toolbox \<Rightarrow> toolbox" where
  "init s =
     (let s1 = fold (\<lambda>key s'. case map_of (toolList s') key of
                                 Some t \<Rightarrow> tool_init t s' | None \<Rightarrow> s')
                    (map fst (toolList s)) s;
          (cb, s2) = getOnMouch ''window'' ''keydown'' s1
      in window_addEventListener ''keydown'' cb s2)"

subsection \<open>Dispatching an event\<close>

text \<open>
  \<^verbatim>\<open>augmentEventOffsets\<close>: the argument \<open>getEventOffset\<close> stands for the function
  of that name imported from gui/generic, which is not part of the given sources.
  Reading \<^verbatim>\<open>offsets[0].x\<close> of an empty array raises.
\<close>

definition augmentEventOffsets :: "(event \<Rightarrow> (int \<times> int) list) \<Rightarrow> event \<Rightarrow> js_error + event" where
  "augmentEventOffsets getEventOffset ev =
     (let offsets = getEventOffset ev
      in (case offsets of
            [] \<Rightarrow> Inl TypeError
          | off0 # _ \<Rightarrow>
              let ev1 = ev\<lparr>ev_x := Some (fst off0), ev_y := Some (snd off0)\<rparr>
              in if length offsets = 2
                 then Inr (ev1\<lparr>ev_x1 := Some (fst (offsets ! 1)), ev_y1 := Some (snd (offsets ! 1))\<rparr>)
                 else Inr ev1))"

text \<open>
  \<^verbatim>\<open>applySelectedTool(event, selectedTool = undefined)\<close>: the second argument is
  \<open>None\<close> where the source leaves it out.
\<close>

definition applySelectedTool ::
  "event \<Rightarrow> string option \<Rightarrow> toolbox \<Rightarrow> (js_error + unit) \<times> toolbox" where
  "applySelectedTool ev sel s =
     (case selectedTool s of
        None \<Rightarrow> (Inr (), s)
      | Some cur \<Rightarrow>
          (case (case sel of
                   None \<Rightarrow> Inr (object_handler cur (ev_type ev))
                 | Some name \<Rightarrow>
                     (case lookup_tool (toolList s) name of
                        None \<Rightarrow> Inl TypeError
                      | Some obj \<Rightarrow> Inr (object_handler obj (ev_type ev)))) of
             Inl e \<Rightarrow> (Inl e, s)
           | Inr None \<Rightarrow> (Inr (), s)
           | Inr (Some func) \<Rightarrow> (Inr (), call_handler func ev s)))"

text \<open>
  Calling one of the controller's function objects with an event. The arrow
  function \<^verbatim>\<open>(event) => {event.preventDefault()}\<close> touches no state of the
  controller.
\<close>

definition run_callback ::
  "(event \<Rightarrow> (int \<times> int) list) \<Rightarrow> callback \<Rightarrow> event \<Rightarrow> toolbox \<Rightarrow> (js_error + unit) \<times> toolbox" where
  "run_callback getEventOffset cb ev s =
     (case cb of
        OnKeydown _ \<Rightarrow> applySelectedTool ev None s
      | OnTouchend _ \<Rightarrow> applySelectedTool ev None s
      | OnMouch _ \<Rightarrow>
          (case augmentEventOffsets getEventOffset ev of
             Inl e \<Rightarrow> (Inl e, s)
           | Inr ev' \<Rightarrow>
               if (ev_type ev' = ''mousedown'' \<and> button ev' = Some 2) \<or>
                  (ev_type ev' = ''mousemove'' \<and> buttons ev' = Some 2)
               then applySelectedTool ev' (Some ''WindowLevel'') s
               else applySelectedTool ev' None s)
      | PreventDefault _ \<Rightarrow> (Inr (), s))"

section \<open>Sample data and auxiliary notions used by the theorems\<close>

text \<open>A small session: three tools, two layers with their elements in the document.\<close>

definition demo_heap :: "nat \<Rightarrow> image_obj" where
  "demo_heap = (\<lambda>_. \<lparr>slices = [], image_listeners = []\<rparr>)"

definition demo_meta :: jsobj where
  "demo_meta = [(''x00020010'', Obj [(''value'', Str ''1.2.840.10008.1.2.1'')]),
                (''InstanceNumber'', Obj [(''value'', Str ''1'')])]"

definition demo_tools :: "(string \<times> tool) list" where
  "demo_tools =
     [(''Scroll'', \<lparr>tool_id = 1, handlers = [(''mousedown'', 10), (''mousemove'', 11)]\<rparr>),
      (''WindowLevel'', \<lparr>tool_id = 2, handlers = [(''mousedown'', 20), (''mousemove'', 21)]\<rparr>),
      (''ZoomAndPan'', \<lparr>tool_id = 3, handlers = [(''wheel'', 30)]\<rparr>)]"

definition demo_layers :: "nat \<Rightarrow> layer_obj" where
  "demo_layers i =
     \<lparr>layer_id = (if i = 0 then ''layer-0'' else ''layer-1''), interaction = False,
      layer_listeners = []\<rparr>"

definition demo_document :: "string \<rightharpoonup> (string \<times> callback) list" where
  "demo_document = [''layer-0'' \<mapsto> [], ''layer-1'' \<mapsto> []]"

definition demo_toolbox :: toolbox where
  "demo_toolbox = new_ToolboxController demo_tools demo_layers demo_document"

definition demo_names :: "string list" where
  "demo_names = [''mousedown'', ''mousemove'', ''wheel'', ''touchend'']"

text \<open>
  The callback that the store holds for a layer id and an event type, if any:
  \<^verbatim>\<open>this.#callbackStore[layerId][eventType]\<close>.
\<close>

definition cached :: "toolbox \<Rightarrow> string \<Rightarrow> string \<Rightarrow> callback option" where
  "cached s layerId eventType =
     (case callbackStore s layerId of None \<Rightarrow> None | Some m \<Rightarrow> m eventType)"

text \<open>
  What a client can do with a controller, and the state after a sequence of such
  steps; a step that raises leaves the state it had reached.
\<close>

datatype toolbox_op =
    Init
  | SetSelectedTool string
  | SetToolFeatures jsobj
  | BindLayer nat string
  | Dispatch callback event

fun apply_op ::
  "string list \<Rightarrow> (event \<Rightarrow> (int \<times> int) list) \<Rightarrow> toolbox_op \<Rightarrow> toolbox \<Rightarrow> toolbox" where
  "apply_op names getEventOffset Init s = init s"
| "apply_op names getEventOffset (SetSelectedTool name) s = snd (setSelectedTool name s)"
| "apply_op names getEventOffset (SetToolFeatures list) s = snd (setToolFeatures list s)"
| "apply_op names getEventOffset (BindLayer layer layerGroupDivId) s =
     snd (bindLayer names layer layerGroupDivId s)"
| "apply_op names getEventOffset (Dispatch cb ev) s = snd (run_callback getEventOffset cb ev s)"

definition run_ops ::
  "string list \<Rightarrow> (event \<Rightarrow> (int \<times> int) list) \<Rightarrow> toolbox_op list \<Rightarrow> toolbox \<Rightarrow> toolbox" where
  "run_ops names getEventOffset ops s = fold (apply_op names getEventOffset) ops s"

text \<open>Sample events: the offset function gives one contact point.\<close>

definition demo_offset :: "event \<Rightarrow> (int \<times> int) list" where
  "demo_offset ev = [(5, 7)]"

definition primary_press :: event where
  "primary_press = \<lparr>ev_type = ''mousedown'', button = Some 0, buttons = Some 1,
     ev_x = None, ev_y = None, ev_x1 = None, ev_y1 = None\<rparr>"

definition secondary_press :: event where
  "secondary_press = \<lparr>ev_type = ''mousedown'', button = Some 2, buttons = Some 2,
     ev_x = None, ev_y = None, ev_x1 = None, ev_y1 = None\<rparr>"

definition secondary_move :: event where
  "secondary_move = \<lparr>ev_type = ''mousemove'', button = Some 0, buttons = Some 2,
     ev_x = None, ev_y = None, ev_x1 = None, ev_y1 = None\<rparr>"

text \<open>
  The sample session after \<^verbatim>\<open>bindLayer(layer 0, 'g')\<close>, after the internal unbind
  of layer 0 that follows, and after a second \<^verbatim>\<open>bindLayer(layer 0, 'g')\<close> instead.
\<close>

definition demo_bound :: toolbox where
  "demo_bound =
     \<lparr>toolList = demo_tools, selectedTool = None,
      callbackStore = [''layer-0'' \<mapsto> [''mousedown'' \<mapsto> OnMouch 0, ''mousemove'' \<mapsto> OnMouch 1,
                                        ''wheel'' \<mapsto> OnMouch 2, ''touchend'' \<mapsto> OnTouchend 3]],
      boundLayers = [''g'' \<mapsto> 0],
      next_fn = 5, active = (\<lambda>_. False), calls = [],
      layers = demo_layers
        (0 := \<lparr>layer_id = ''layer-0'', interaction = True,
               layer_listeners = [(''mousedown'', OnMouch 0), (''mousemove'', OnMouch 1),
                                  (''wheel'', OnMouch 2), (''touchend'', OnTouchend 3)]\<rparr>),
      document = demo_document(''layer-0'' \<mapsto> [(''contextmenu'', PreventDefault 4)]),
      window_listeners = []\<rparr>"

definition demo_unbound :: toolbox where
  "demo_unbound =
     demo_bound
       \<lparr>next_fn := 6,
        layers := demo_layers
          (0 := \<lparr>layer_id = ''layer-0'', interaction = False, layer_listeners = []\<rparr>)\<rparr>"

definition demo_rebound :: toolbox where
  "demo_rebound =
     demo_bound
       \<lparr>next_fn := 7,
        document := demo_document
          (''layer-0'' \<mapsto> [(''contextmenu'', PreventDefault 4), (''contextmenu'', PreventDefault 6)])\<rparr>"

section \<open>Properties of the data controller\<close>

text \<open>
  C4. For an id that the store does not hold, \<^verbatim>\<open>addNew(id, image, meta)\<close> succeeds
  and \<^verbatim>\<open>get(id)\<close> then returns the entry made of the image and the normalised meta
  data: the output of the DICOM wrapper when \<^verbatim>\<open>meta.x00020010\<close> is defined, the
  meta data as given otherwise. A second \<^verbatim>\<open>addNew\<close> with the same id, whatever its
  other arguments, raises the index-already-used error and leaves the whole state,
  so also the stored entry, as it was.
\<close>

theorem addNew_then_get:
  assumes "data s index = None"
  shows "fst (addNew dumpToObject index img m s) = Inr ()
       \<and> (property m ''x00020010'' \<noteq> Undefined \<longrightarrow>
            get index (snd (addNew dumpToObject index img m s))
              = Some \<lparr>entry_image = img, meta = dumpToObject m\<rparr>)
       \<and> (property m ''x00020010'' = Undefined \<longrightarrow>
            get index (snd (addNew dumpToObject index img m s))
              = Some \<lparr>entry_image = img, meta = m\<rparr>)
       \<and> addNew dumpToObject index img2 m2 (snd (addNew dumpToObject index img m s))
           = (Inl (IndexAlreadyUsed index), snd (addNew dumpToObject index img m s))
       \<and> get index (snd (addNew dumpToObject index img2 m2
                             (snd (addNew dumpToObject index img m s))))
           = get index (snd (addNew dumpToObject index img m s))"
  using assms
  by (simp add: addNew_def get_def getFireEvent_def image_addEventListener_def
      getMetaObject_def Let_def)

theorem addNew_then_get_witness:
  "data (new_DataController demo_heap) 0 = None
   \<and> property demo_meta ''x00020010'' \<noteq> Undefined
   \<and> property [(''imageUid'', Str ''a'')] ''x00020010'' = Undefined
   \<and> get 0 (snd (addNew (\<lambda>m. [(''InstanceNumber'', Str ''1'')]) 0 7 demo_meta
                    (new_DataController demo_heap)))
       = Some \<lparr>entry_image = 7, meta = [(''InstanceNumber'', Str ''1'')]\<rparr>
   \<and> get 0 (snd (addNew (\<lambda>m. [(''InstanceNumber'', Str ''1'')]) 0 7 [(''imageUid'', Str ''a'')]
                    (new_DataController demo_heap)))
       = Some \<lparr>entry_image = 7, meta = [(''imageUid'', Str ''a'')]\<rparr>
   \<and> fst (addNew (\<lambda>m. [(''InstanceNumber'', Str ''1'')]) 0 8 []
            (snd (addNew (\<lambda>m. [(''InstanceNumber'', Str ''1'')]) 0 7 demo_meta
                    (new_DataController demo_heap))))
       = Inl (IndexAlreadyUsed 0)
   \<and> get 0 (snd (addNew (\<lambda>m. [(''InstanceNumber'', Str ''1'')]) 0 8 []
            (snd (addNew (\<lambda>m. [(''InstanceNumber'', Str ''1'')]) 0 7 demo_meta
                    (new_DataController demo_heap)))))
       = Some \<lparr>entry_image = 7, meta = [(''InstanceNumber'', Str ''1'')]\<rparr>"
proof -
  have free: "data (new_DataController demo_heap) 0 = None"
    by (simp add: new_DataController_def)
  have dicom: "property demo_meta ''x00020010'' \<noteq> Undefined"
    by (simp add: demo_meta_def property_def)
  have plain: "property [(''imageUid'', Str ''a'')] ''x00020010'' = Undefined"
    by (simp add: property_def)
  note a = addNew_then_get [OF free, where dumpToObject = "\<lambda>m. [(''InstanceNumber'', Str ''1'')]"
              and img = 7 and m = demo_meta and ?img2.0 = 8 and ?m2.0 = "[]"]
  note b = addNew_then_get [OF free, where dumpToObject = "\<lambda>m. [(''InstanceNumber'', Str ''1'')]"
              and img = 7 and m = "[(''imageUid'', Str ''a'')]" and ?img2.0 = 8 and ?m2.0 = "[]"]
  show ?thesis
    using free dicom plain a b by simp
qed

text \<open>
  C6. \<^verbatim>\<open>update(id, image, meta)\<close> on an existing entry appends the image to the
  slices of the stored image and replaces the entry's meta data by the merge of the
  old meta data with the normalised new ones, under the key \<^verbatim>\<open>InstanceNumber\<close>
  when \<^verbatim>\<open>meta.x00020010\<close> is defined and under \<^verbatim>\<open>imageUid\<close> otherwise. The
  normalisation passes the meta data through the DICOM wrapper in the first case
  and returns them as they are in the second.
\<close>

theorem update_appends_and_merges:
  assumes "data s index = Some e"
  shows "fst (update dumpToObject mergeObjects index img m s) = Inr ()
     \<and> slices (images (snd (update dumpToObject mergeObjects index img m s)) (entry_image e))
         = slices (images s (entry_image e)) @ [img]
     \<and> (property m ''x00020010'' \<noteq> Undefined \<longrightarrow>
          getMetaObject dumpToObject m = dumpToObject m
        \<and> get index (snd (update dumpToObject mergeObjects index img m s))
            = Some \<lparr>entry_image = entry_image e,
                    meta = mergeObjects (meta e) (dumpToObject m) ''InstanceNumber'' ''value''\<rparr>)
     \<and> (property m ''x00020010'' = Undefined \<longrightarrow>
          getMetaObject dumpToObject m = m
        \<and> get index (snd (update dumpToObject mergeObjects index img m s))
            = Some \<lparr>entry_image = entry_image e,
                    meta = mergeObjects (meta e) m ''imageUid'' ''value''\<rparr>)"
  using assms
  by (simp add: update_def get_def image_appendSlice_def getMetaObject_def Let_def)

theorem update_appends_and_merges_witness:
  "data (snd (addNew (\<lambda>m. []) 0 7 [] (new_DataController demo_heap))) 0
     = Some \<lparr>entry_image = 7, meta = []\<rparr>
   \<and> property demo_meta ''x00020010'' \<noteq> Undefined
   \<and> property [] ''x00020010'' = Undefined
   \<and> slices (images (snd (update (\<lambda>m. []) (\<lambda>a b k v. a @ b @ [(k, Str v)]) 0 8 demo_meta
               (snd (addNew (\<lambda>m. []) 0 7 [] (new_DataController demo_heap))))) 7) = [8]
   \<and> get 0 (snd (update (\<lambda>m. []) (\<lambda>a b k v. a @ b @ [(k, Str v)]) 0 8 demo_meta
               (snd (addNew (\<lambda>m. []) 0 7 [] (new_DataController demo_heap)))))
       = Some \<lparr>entry_image = 7, meta = [(''InstanceNumber'', Str ''value'')]\<rparr>
   \<and> get 0 (snd (update (\<lambda>m. []) (\<lambda>a b k v. a @ b @ [(k, Str v)]) 0 8 []
               (snd (addNew (\<lambda>m. []) 0 7 [] (new_DataController demo_heap)))))
       = Some \<lparr>entry_image = 7, meta = [(''imageUid'', Str ''value'')]\<rparr>"
  using update_appends_and_merges
          [of "snd (addNew (\<lambda>m. []) 0 7 [] (new_DataController demo_heap))" 0
              "\<lparr>entry_image = 7, meta = []\<rparr>" "\<lambda>m. []" "\<lambda>a b k v. a @ b @ [(k, Str v)]" 8 demo_meta]
        update_appends_and_merges
          [of "snd (addNew (\<lambda>m. []) 0 7 [] (new_DataController demo_heap))" 0
              "\<lparr>entry_image = 7, meta = []\<rparr>" "\<lambda>m. []" "\<lambda>a b k v. a @ b @ [(k, Str v)]" 8 "[]"]
  by (simp add: addNew_def new_DataController_def demo_heap_def demo_meta_def getFireEvent_def
      image_addEventListener_def getMetaObject_def property_def Let_def)

text \<open>
  C7, as the code has it. After \<^verbatim>\<open>reset()\<close> the store holds no entry and
  \<^verbatim>\<open>length()\<close> is 0 whatever the store held; \<^verbatim>\<open>reset()\<close> removes no listener:
  the listeners registered on the controller and the listeners that the controller
  registered on the images are the same as before.
\<close>

theorem reset_empties_store_keeps_listeners:
  "length_dc (reset s) = 0 \<and> get index (reset s) = None
   \<and> listenerHandler (reset s) = listenerHandler s \<and> images (reset s) = images s"
  by (simp add: length_dc_def reset_def get_def)

text \<open>
  C7 as stated fails: after \<^verbatim>\<open>addNew(0, image 7, [])\<close> and \<^verbatim>\<open>reset()\<close> the
  listener that \<^verbatim>\<open>addNew\<close> registered on image 7 for entry 0 is still registered,
  and so is a listener registered on the controller itself.
\<close>

theorem reset_listeners_counterexample:
  "length_dc (reset (snd (addNew (\<lambda>m. m) 0 7 [] (new_DataController demo_heap)))) = 0
   \<and> image_listeners
       (images (reset (snd (addNew (\<lambda>m. m) 0 7 [] (new_DataController demo_heap)))) 7)
     = [(''imagechange'', FireEvent 0 0)]
   \<and> listenerHandler (reset (addEventListener ''imagechange'' 3 (new_DataController demo_heap)))
     = [(''imagechange'', 3)]"
  by (simp add: length_dc_def reset_def addNew_def new_DataController_def demo_heap_def
      getFireEvent_def image_addEventListener_def addEventListener_def Let_def)

text \<open>
  C9. For an id that the store does not hold, \<^verbatim>\<open>update(id, image, meta)\<close> raises
  a TypeError when it reads \<^verbatim>\<open>image\<close> of the missing entry, before any mutation:
  the state after the call, entries, images and listeners, is the state before it.
\<close>

theorem update_missing_entry_raises:
  assumes "data s index = None"
  shows "update dumpToObject mergeObjects index img m s = (Inl TypeError, s)"
  using assms by (simp add: update_def)

theorem update_missing_entry_raises_witness:
  "data (new_DataController demo_heap) 5 = None
   \<and> update (\<lambda>m. m) (\<lambda>a b k v. a @ b) 5 8 demo_meta (new_DataController demo_heap)
       = (Inl TypeError, new_DataController demo_heap)"
  using update_missing_entry_raises
          [of "new_DataController demo_heap" 5 "\<lambda>m. m" "\<lambda>a b k v. a @ b" 8 demo_meta]
  by (simp add: new_DataController_def)

section \<open>Properties of tool selection\<close>

lemma lookup_tool_own:
  "map_of tools name = Some t \<Longrightarrow> lookup_tool tools name = Some (ToolObject t)"
  by (simp add: lookup_tool_def)

lemma setSelectedTool_unknown:
  "lookup_tool (toolList s) name = None \<Longrightarrow>
     setSelectedTool name s = (Inl (UnknownTool name), s)"
  by (simp add: setSelectedTool_def hasTool_def getToolList_def)

lemma setSelectedTool_from_none:
  assumes "map_of (toolList s) name = Some t" and "selectedTool s = None"
  shows "setSelectedTool name s =
           (Inr (), tool_activate t True (s\<lparr>selectedTool := Some (ToolObject t)\<rparr>))"
  using assms
  by (simp add: setSelectedTool_def hasTool_def getToolList_def lookup_tool_own
      object_activate_def Let_def)

lemma setSelectedTool_from_tool:
  assumes "map_of (toolList s) name = Some t" and "selectedTool s = Some (ToolObject old)"
  shows "setSelectedTool name s =
           (Inr (), tool_activate t True
                      ((tool_activate old False s)\<lparr>selectedTool := Some (ToolObject t)\<rparr>))"
  using assms
  by (simp add: setSelectedTool_def hasTool_def getToolList_def lookup_tool_own
      object_activate_def tool_activate_def Let_def)

lemma demo_select_Scroll:
  "setSelectedTool ''Scroll'' demo_toolbox =
     (Inr (), demo_toolbox
        \<lparr>selectedTool :=
           Some (ToolObject \<lparr>tool_id = 1, handlers = [(''mousedown'', 10), (''mousemove'', 11)]\<rparr>),
         active := (\<lambda>_. False)(1 := True), calls := [Activate 1 True]\<rparr>)"
  by (simp add: setSelectedTool_def hasTool_def getToolList_def lookup_tool_def
      object_activate_def tool_activate_def Let_def
      demo_toolbox_def demo_tools_def new_ToolboxController_def)

text \<open>
  C1 on the code. In the state the constructor makes no tool is selected, and there
  \<^verbatim>\<open>getSelectedToolEventHandler('mousedown')\<close> reads a property of \<^verbatim>\<open>null\<close>
  and raises a TypeError; it does not return \<^verbatim>\<open>undefined\<close>. With a selected tool
  that declares no handler for the event type the result is \<^verbatim>\<open>undefined\<close>.
  \<^verbatim>\<open>setToolFeatures\<close>, which tests the selection first, does nothing in the same
  state.
\<close>

theorem getSelectedToolEventHandler_raises_without_selection:
  "selectedTool demo_toolbox = None
   \<and> getSelectedToolEventHandler ''mousedown'' demo_toolbox = Inl TypeError
   \<and> setToolFeatures [] demo_toolbox = (Inr (), demo_toolbox)
   \<and> getSelectedToolEventHandler ''wheel'' (snd (setSelectedTool ''Scroll'' demo_toolbox))
       = Inr None"
  by (simp add: demo_select_Scroll)
     (simp add: getSelectedToolEventHandler_def getSelectedTool_def demo_toolbox_def
        new_ToolboxController_def setToolFeatures_def object_handler_def)

lemma getSelectedToolEventHandler_cases:
  "getSelectedToolEventHandler eventType (s\<lparr>selectedTool := None\<rparr>) = Inl TypeError"
  "getSelectedToolEventHandler eventType (s\<lparr>selectedTool := Some (ToolObject t)\<rparr>)
     = Inr (map_of (handlers t) eventType)"
  by (simp_all add: getSelectedToolEventHandler_def getSelectedTool_def object_handler_def)

text \<open>
  C3 on the code. With the tool \<^verbatim>\<open>Scroll\<close> selected and active,
  \<^verbatim>\<open>setSelectedTool('toString')\<close> is a call with a name that is not registered.
  The check \<^verbatim>\<open>hasTool\<close> lets the name pass, because the tool list inherits a
  member of that name. The call then de-activates \<^verbatim>\<open>Scroll\<close>, stores the
  inherited function as the selection and raises a TypeError when it calls
  \<^verbatim>\<open>activate\<close> on it: no unknown-tool error, and the state has changed. From
  then on every \<^verbatim>\<open>setSelectedTool\<close>, also with a registered name, raises a
  TypeError at the de-activation of the stored function. A name that is neither
  registered nor inherited, such as \<^verbatim>\<open>Draw\<close>, raises the unknown-tool error and
  leaves the state as it was.
\<close>

theorem setSelectedTool_accepts_inherited_name:
  "map_of (toolList (snd (setSelectedTool ''Scroll'' demo_toolbox))) ''toString'' = None
   \<and> hasTool ''toString'' (snd (setSelectedTool ''Scroll'' demo_toolbox))
   \<and> active (snd (setSelectedTool ''Scroll'' demo_toolbox)) 1
   \<and> fst (setSelectedTool ''toString'' (snd (setSelectedTool ''Scroll'' demo_toolbox)))
       = Inl TypeError
   \<and> selectedTool (snd (setSelectedTool ''toString'' (snd (setSelectedTool ''Scroll'' demo_toolbox))))
       = Some (PrototypeMember ''toString'')
   \<and> \<not> active (snd (setSelectedTool ''toString'' (snd (setSelectedTool ''Scroll'' demo_toolbox)))) 1
   \<and> calls (snd (setSelectedTool ''toString'' (snd (setSelectedTool ''Scroll'' demo_toolbox))))
       = [Activate 1 True, Activate 1 False]
   \<and> setSelectedTool ''Scroll''
         (snd (setSelectedTool ''toString'' (snd (setSelectedTool ''Scroll'' demo_toolbox))))
       = (Inl TypeError,
          snd (setSelectedTool ''toString'' (snd (setSelectedTool ''Scroll'' demo_toolbox))))
   \<and> setSelectedTool ''Draw'' (snd (setSelectedTool ''Scroll'' demo_toolbox))
       = (Inl (UnknownTool ''Draw''), snd (setSelectedTool ''Scroll'' demo_toolbox))"
proof -
  let ?S = "demo_toolbox
        \<lparr>selectedTool :=
           Some (ToolObject \<lparr>tool_id = 1, handlers = [(''mousedown'', 10), (''mousemove'', 11)]\<rparr>),
         active := (\<lambda>_. False)(1 := True), calls := [Activate 1 True]\<rparr>"
  have S: "snd (setSelectedTool ''Scroll'' demo_toolbox) = ?S"
    by (simp add: demo_select_Scroll)
  have t: "setSelectedTool ''toString'' ?S =
     (Inl TypeError,
      ?S\<lparr>active := (\<lambda>_. False)(1 := False), calls := [Activate 1 True, Activate 1 False],
         selectedTool := Some (PrototypeMember ''toString'')\<rparr>)"
    by (simp add: setSelectedTool_def hasTool_def getToolList_def lookup_tool_def
        object_prototype_names_def object_activate_def tool_activate_def Let_def
        demo_toolbox_def demo_tools_def new_ToolboxController_def)
  have again: "setSelectedTool ''Scroll''
       (?S\<lparr>active := (\<lambda>_. False)(1 := False), calls := [Activate 1 True, Activate 1 False],
           selectedTool := Some (PrototypeMember ''toString'')\<rparr>)
     = (Inl TypeError,
        ?S\<lparr>active := (\<lambda>_. False)(1 := False), calls := [Activate 1 True, Activate 1 False],
           selectedTool := Some (PrototypeMember ''toString'')\<rparr>)"
    by (simp add: setSelectedTool_def hasTool_def getToolList_def lookup_tool_def
        object_activate_def demo_toolbox_def demo_tools_def new_ToolboxController_def)
  have d: "setSelectedTool ''Draw'' ?S = (Inl (UnknownTool ''Draw''), ?S)"
    by (rule setSelectedTool_unknown)
       (simp add: lookup_tool_def object_prototype_names_def demo_toolbox_def demo_tools_def
          new_ToolboxController_def)
  have u: "map_of (toolList ?S) ''toString'' = None"
    by (simp add: demo_toolbox_def demo_tools_def new_ToolboxController_def)
  have h: "hasTool ''toString'' ?S"
    by (simp add: hasTool_def getToolList_def lookup_tool_def object_prototype_names_def
        demo_toolbox_def demo_tools_def new_ToolboxController_def)
  show ?thesis
    unfolding S t using u h d again by simp
qed

text \<open>
  C10. \<^verbatim>\<open>setSelectedTool(name)\<close> with the name of the tool that is already selected
  calls \<^verbatim>\<open>activate(false)\<close> and then \<^verbatim>\<open>activate(true)\<close> on that tool and leaves
  it selected and active.
\<close>

theorem setSelectedTool_reselect:
  assumes "map_of (toolList s) name = Some t" and "selectedTool s = Some (ToolObject t)"
  shows "fst (setSelectedTool name s) = Inr ()
       \<and> selectedTool (snd (setSelectedTool name s)) = Some (ToolObject t)
       \<and> active (snd (setSelectedTool name s)) (tool_id t)
       \<and> calls (snd (setSelectedTool name s))
           = calls s @ [Activate (tool_id t) False, Activate (tool_id t) True]"
  using assms
  by (simp add: setSelectedTool_from_tool tool_activate_def)

theorem setSelectedTool_reselect_witness:
  "map_of (toolList (snd (setSelectedTool ''Scroll'' demo_toolbox))) ''Scroll''
       = Some \<lparr>tool_id = 1, handlers = [(''mousedown'', 10), (''mousemove'', 11)]\<rparr>
   \<and> selectedTool (snd (setSelectedTool ''Scroll'' demo_toolbox))
       = Some (ToolObject \<lparr>tool_id = 1, handlers = [(''mousedown'', 10), (''mousemove'', 11)]\<rparr>)
   \<and> calls (snd (setSelectedTool ''Scroll'' (snd (setSelectedTool ''Scroll'' demo_toolbox))))
       = [Activate 1 True, Activate 1 False, Activate 1 True]
   \<and> selectedTool (snd (setSelectedTool ''Scroll'' (snd (setSelectedTool ''Scroll'' demo_toolbox))))
       = Some (ToolObject \<lparr>tool_id = 1, handlers = [(''mousedown'', 10), (''mousemove'', 11)]\<rparr>)"
proof -
  have a: "map_of (toolList (snd (setSelectedTool ''Scroll'' demo_toolbox))) ''Scroll''
       = Some \<lparr>tool_id = 1, handlers = [(''mousedown'', 10), (''mousemove'', 11)]\<rparr>"
    by (simp add: demo_select_Scroll) (simp add: demo_toolbox_def demo_tools_def new_ToolboxController_def)
  have b: "selectedTool (snd (setSelectedTool ''Scroll'' demo_toolbox))
       = Some (ToolObject \<lparr>tool_id = 1, handlers = [(''mousedown'', 10), (''mousemove'', 11)]\<rparr>)"
    "calls (snd (setSelectedTool ''Scroll'' demo_toolbox)) = [Activate 1 True]"
    by (simp_all add: demo_select_Scroll)
  show ?thesis
    using a b setSelectedTool_reselect [OF a b(1)] by simp
qed

section \<open>Properties of the dispatcher\<close>

lemma augment_fields:
  "augmentEventOffsets getEventOffset ev = Inr ev' \<Longrightarrow>
     ev_type ev' = ev_type ev \<and> button ev' = button ev \<and> buttons ev' = buttons ev"
  by (auto simp: augmentEventOffsets_def Let_def split: list.splits if_splits)

text \<open>
  C5, as the code has it. Let the offset function give at least one contact point
  for the event, so that the event gets its offsets. The dispatcher for mouse and
  touch events then routes a press of the primary button to the handler that the
  selected tool declares for \<^verbatim>\<open>mousedown\<close>. When a tool is selected, whichever it
  is, and the tool list has an entry \<^verbatim>\<open>WindowLevel\<close>, a press with button 2 and a
  move with buttons 2 go to the handler that the \<^verbatim>\<open>WindowLevel\<close> tool declares
  for the event type. When the tool found has no handler for the event type the
  dispatch does nothing, and when no tool is selected every event is dropped, the
  secondary-button ones too. The callback created for \<^verbatim>\<open>mousedown\<close> and for
  \<^verbatim>\<open>mousemove\<close> is this dispatcher.
\<close>

theorem dispatch_routing:
  assumes "augmentEventOffsets getEventOffset ev = Inr ev'"
  shows "(ev_type ev = ''mousedown'' \<and> button ev = Some 0 \<and> selectedTool s = Some (ToolObject cur) \<longrightarrow>
            run_callback getEventOffset (OnMouch n) ev s =
              (Inr (), case map_of (handlers cur) ''mousedown'' of
                         None \<Rightarrow> s | Some func \<Rightarrow> call_handler func ev' s))
       \<and> (((ev_type ev = ''mousedown'' \<and> button ev = Some 2) \<or>
            (ev_type ev = ''mousemove'' \<and> buttons ev = Some 2))
           \<and> selectedTool s = Some selected \<and> map_of (toolList s) ''WindowLevel'' = Some wl \<longrightarrow>
            run_callback getEventOffset (OnMouch n) ev s =
              (Inr (), case map_of (handlers wl) (ev_type ev) of
                         None \<Rightarrow> s | Some func \<Rightarrow> call_handler func ev' s))
       \<and> (selectedTool s = None \<longrightarrow>
            run_callback getEventOffset (OnMouch n) ev s = (Inr (), s))
       \<and> (cached s layerId ''mousedown'' = None \<longrightarrow>
            fst (getOnMouch layerId ''mousedown'' s) = OnMouch (next_fn s))
       \<and> (cached s layerId ''mousemove'' = None \<longrightarrow>
            fst (getOnMouch layerId ''mousemove'' s) = OnMouch (next_fn s))"
proof -
  note f = augment_fields [OF assms]
  have a: "ev_type ev = ''mousedown'' \<and> button ev = Some 0 \<and> selectedTool s = Some (ToolObject cur) \<longrightarrow>
            run_callback getEventOffset (OnMouch n) ev s =
              (Inr (), case map_of (handlers cur) ''mousedown'' of
                         None \<Rightarrow> s | Some func \<Rightarrow> call_handler func ev' s)"
    using f by (simp add: run_callback_def assms applySelectedTool_def object_handler_def split: option.splits)
  have b: "((ev_type ev = ''mousedown'' \<and> button ev = Some 2) \<or>
            (ev_type ev = ''mousemove'' \<and> buttons ev = Some 2))
           \<and> selectedTool s = Some selected \<and> map_of (toolList s) ''WindowLevel'' = Some wl \<longrightarrow>
            run_callback getEventOffset (OnMouch n) ev s =
              (Inr (), case map_of (handlers wl) (ev_type ev) of
                         None \<Rightarrow> s | Some func \<Rightarrow> call_handler func ev' s)"
    using f by (auto simp: run_callback_def assms applySelectedTool_def object_handler_def lookup_tool_own split: option.splits)
  have c: "selectedTool s = None \<longrightarrow>
            run_callback getEventOffset (OnMouch n) ev s = (Inr (), s)"
    by (simp add: run_callback_def assms applySelectedTool_def)
  have d: "cached s layerId k = None \<Longrightarrow> k \<noteq> ''keydown'' \<Longrightarrow> k \<noteq> ''touchend'' \<Longrightarrow>
            fst (getOnMouch layerId k s) = OnMouch (next_fn s)" for k
    by (auto simp: cached_def getOnMouch_def Let_def split: option.splits)
  show ?thesis using a b c d [of "''mousedown''"] d [of "''mousemove''"] by simp
qed

theorem dispatch_routing_witness:
  "augmentEventOffsets demo_offset primary_press = Inr (primary_press\<lparr>ev_x := Some 5, ev_y := Some 7\<rparr>)
   \<and> augmentEventOffsets demo_offset secondary_press = Inr (secondary_press\<lparr>ev_x := Some 5, ev_y := Some 7\<rparr>)
   \<and> augmentEventOffsets demo_offset secondary_move = Inr (secondary_move\<lparr>ev_x := Some 5, ev_y := Some 7\<rparr>)
   \<and> calls (snd (run_callback demo_offset (OnMouch 0) primary_press
                    (snd (setSelectedTool ''Scroll'' demo_toolbox))))
       = [Activate 1 True, HandlerCall 10 (primary_press\<lparr>ev_x := Some 5, ev_y := Some 7\<rparr>)]
   \<and> calls (snd (run_callback demo_offset (OnMouch 0) secondary_press
                    (snd (setSelectedTool ''Scroll'' demo_toolbox))))
       = [Activate 1 True, HandlerCall 20 (secondary_press\<lparr>ev_x := Some 5, ev_y := Some 7\<rparr>)]
   \<and> calls (snd (run_callback demo_offset (OnMouch 0) secondary_move
                    (snd (setSelectedTool ''ZoomAndPan'' demo_toolbox))))
       = [Activate 3 True, HandlerCall 21 (secondary_move\<lparr>ev_x := Some 5, ev_y := Some 7\<rparr>)]
   \<and> run_callback demo_offset (OnMouch 0) primary_press demo_toolbox = (Inr (), demo_toolbox)
   \<and> fst (getOnMouch ''layer-0'' ''mousedown'' demo_toolbox) = OnMouch 0
   \<and> fst (getOnMouch ''layer-0'' ''mousemove'' demo_toolbox) = OnMouch 0"
proof -
  let ?scroll = "\<lparr>tool_id = 1, handlers = [(''mousedown'', 10), (''mousemove'', 11)]\<rparr>"
  let ?wl = "\<lparr>tool_id = 2, handlers = [(''mousedown'', 20), (''mousemove'', 21)]\<rparr>"
  let ?zoom = "\<lparr>tool_id = 3, handlers = [(''wheel'', 30)]\<rparr>"
  let ?S = "snd (setSelectedTool ''Scroll'' demo_toolbox)"
  let ?Z = "snd (setSelectedTool ''ZoomAndPan'' demo_toolbox)"
  have selZ: "setSelectedTool ''ZoomAndPan'' demo_toolbox =
     (Inr (), demo_toolbox\<lparr>selectedTool := Some (ToolObject ?zoom),
         active := (\<lambda>_. False)(3 := True), calls := [Activate 3 True]\<rparr>)"
    by (simp add: setSelectedTool_def hasTool_def getToolList_def lookup_tool_def
        object_activate_def tool_activate_def Let_def
        demo_toolbox_def demo_tools_def new_ToolboxController_def)
  have a1: "augmentEventOffsets demo_offset primary_press
              = Inr (primary_press\<lparr>ev_x := Some 5, ev_y := Some 7\<rparr>)"
    and a2: "augmentEventOffsets demo_offset secondary_press
              = Inr (secondary_press\<lparr>ev_x := Some 5, ev_y := Some 7\<rparr>)"
    and a3: "augmentEventOffsets demo_offset secondary_move
              = Inr (secondary_move\<lparr>ev_x := Some 5, ev_y := Some 7\<rparr>)"
    by (simp_all add: augmentEventOffsets_def demo_offset_def Let_def)
  have sS: "selectedTool ?S = Some (ToolObject ?scroll)" "calls ?S = [Activate 1 True]"
    "map_of (toolList ?S) ''WindowLevel'' = Some ?wl"
    by (simp_all add: demo_select_Scroll)
       (simp add: demo_toolbox_def demo_tools_def new_ToolboxController_def)
  have sZ: "selectedTool ?Z = Some (ToolObject ?zoom)" "calls ?Z = [Activate 3 True]"
    "map_of (toolList ?Z) ''WindowLevel'' = Some ?wl"
    by (simp_all add: selZ)
       (simp add: demo_toolbox_def demo_tools_def new_ToolboxController_def)
  have s0: "selectedTool demo_toolbox = None" "cached demo_toolbox ''layer-0'' ''mousedown'' = None"
    "cached demo_toolbox ''layer-0'' ''mousemove'' = None" "next_fn demo_toolbox = 0"
    by (simp_all add: demo_toolbox_def new_ToolboxController_def cached_def)
  have e: "ev_type primary_press = ''mousedown''" "button primary_press = Some 0"
    "ev_type secondary_press = ''mousedown''" "button secondary_press = Some 2"
    "ev_type secondary_move = ''mousemove''" "buttons secondary_move = Some 2"
    by (simp_all add: primary_press_def secondary_press_def secondary_move_def)
  have r1: "run_callback demo_offset (OnMouch 0) primary_press ?S
              = (Inr (), call_handler 10 (primary_press\<lparr>ev_x := Some 5, ev_y := Some 7\<rparr>) ?S)"
    using dispatch_routing [OF a1, where s = ?S and cur = ?scroll and n = 0] sS e by simp
  have r2: "run_callback demo_offset (OnMouch 0) secondary_press ?S
              = (Inr (), call_handler 20 (secondary_press\<lparr>ev_x := Some 5, ev_y := Some 7\<rparr>) ?S)"
    using dispatch_routing [OF a2, where s = ?S and selected = "ToolObject ?scroll" and wl = ?wl and n = 0] sS e by simp
  have r3: "run_callback demo_offset (OnMouch 0) secondary_move ?Z
              = (Inr (), call_handler 21 (secondary_move\<lparr>ev_x := Some 5, ev_y := Some 7\<rparr>) ?Z)"
    using dispatch_routing [OF a3, where s = ?Z and selected = "ToolObject ?zoom" and wl = ?wl and n = 0] sZ e by simp
  have r4: "run_callback demo_offset (OnMouch 0) primary_press demo_toolbox = (Inr (), demo_toolbox)"
    and r5: "fst (getOnMouch ''layer-0'' ''mousedown'' demo_toolbox) = OnMouch 0"
    and r6: "fst (getOnMouch ''layer-0'' ''mousemove'' demo_toolbox) = OnMouch 0"
    using dispatch_routing [OF a1, where s = demo_toolbox and n = 0 and layerId = "''layer-0''"] s0 by simp_all
  show ?thesis
    by (simp add: a1 a2 a3 r1 r2 r3 r4 r5 r6 call_handler_def sS sZ)
qed

text \<open>
  C5 as stated fails: with the \<^verbatim>\<open>WindowLevel\<close> tool registered and no tool
  selected, a press with button 2 reaches no handler; the state is unchanged and the
  call trace stays empty.
\<close>

theorem dispatch_override_without_selection_counterexample:
  "map_of (toolList demo_toolbox) ''WindowLevel''
     = Some \<lparr>tool_id = 2, handlers = [(''mousedown'', 20), (''mousemove'', 21)]\<rparr>
   \<and> selectedTool demo_toolbox = None
   \<and> fst (getOnMouch ''layer-0'' ''mousedown'' demo_toolbox) = OnMouch 0
   \<and> run_callback demo_offset (OnMouch 0) secondary_press demo_toolbox = (Inr (), demo_toolbox)
   \<and> calls demo_toolbox = []"
  by (simp add: demo_toolbox_def demo_tools_def new_ToolboxController_def run_callback_def
      augmentEventOffsets_def demo_offset_def secondary_press_def applySelectedTool_def
      getOnMouch_def Let_def)

section \<open>Properties of the dispatcher cache and of layer binding\<close>

lemma getOnMouch_hit: "cached s l k = Some cb \<Longrightarrow> getOnMouch l k s = (cb, s)"
  by (auto simp: cached_def getOnMouch_def Let_def split: option.splits)

lemma getOnMouch_cached: "cached (snd (getOnMouch l k s)) l k = Some (fst (getOnMouch l k s))"
  by (auto simp: cached_def getOnMouch_def Let_def split: option.splits)

lemma getOnMouch_mono:
  "cached s l k = Some cb \<Longrightarrow> cached (snd (getOnMouch l' k' s)) l k = Some cb"
  by (auto simp: cached_def getOnMouch_def Let_def split: option.splits)

lemma getOnMouch_layers: "layers (snd (getOnMouch l k s)) = layers s"
  by (auto simp: getOnMouch_def Let_def split: option.splits)

lemma cached_layer_ops:
  "cached (layer_addEventListener L n cb s) = cached s"
  "cached (layer_removeEventListener L n cb s) = cached s"
  "cached (layer_bindInteraction L s) = cached s"
  "cached (layer_unbindInteraction L s) = cached s"
  by (simp_all add: cached_def layer_addEventListener_def layer_removeEventListener_def
      layer_bindInteraction_def layer_unbindInteraction_def fun_eq_iff)

lemma layer_id_layer_ops:
  "layer_id (layers (layer_addEventListener L n cb s) L') = layer_id (layers s L')"
  "layer_id (layers (layer_removeEventListener L n cb s) L') = layer_id (layers s L')"
  "layer_id (layers (layer_bindInteraction L s) L') = layer_id (layers s L')"
  "layer_id (layers (layer_unbindInteraction L s) L') = layer_id (layers s L')"
  by (simp_all add: layer_addEventListener_def layer_removeEventListener_def
      layer_bindInteraction_def layer_unbindInteraction_def)

lemma add_listeners_mono:
  "cached s l k = Some cb \<Longrightarrow> cached (add_listeners ns L s) l k = Some cb"
proof (induction ns arbitrary: s)
  case Nil
  then show ?case by simp
next
  case (Cons n ns)
  have "cached (layer_addEventListener L n (fst (getOnMouch (layer_getId L s) n s))
                  (snd (getOnMouch (layer_getId L s) n s))) l k = Some cb"
    using Cons.prems by (simp add: cached_layer_ops getOnMouch_mono)
  then show ?case
    by (simp add: split_def Let_def Cons.IH)
qed

lemma remove_listeners_mono:
  "cached s l k = Some cb \<Longrightarrow> cached (remove_listeners ns L s) l k = Some cb"
proof (induction ns arbitrary: s)
  case Nil
  then show ?case by simp
next
  case (Cons n ns)
  have "cached (layer_removeEventListener L n (fst (getOnMouch (layer_getId L s) n s))
                  (snd (getOnMouch (layer_getId L s) n s))) l k = Some cb"
    using Cons.prems by (simp add: cached_layer_ops getOnMouch_mono)
  then show ?case
    by (simp add: split_def Let_def Cons.IH)
qed

lemma unbindLayer_mono:
  "cached s l k = Some cb \<Longrightarrow> cached (snd (unbindLayer names L s)) l k = Some cb"
proof -
  assume a: "cached s l k = Some cb"
  have "cached (remove_listeners names L (layer_unbindInteraction L s)) l k = Some cb"
    using a by (simp add: remove_listeners_mono cached_layer_ops)
  then show ?thesis
    by (auto simp: unbindLayer_def Let_def cached_def split: option.splits)
qed

lemma bindLayer_mono:
  assumes "cached s l k = Some cb"
  shows "cached (snd (bindLayer names L g s)) l k = Some cb"
proof -
  define r where "r = (case boundLayers s g of Some old \<Rightarrow> unbindLayer names old s
                        | None \<Rightarrow> (Inr (), s))"
  have r: "cached (snd r) l k = Some cb"
    using assms by (cases "boundLayers s g") (simp_all add: r_def unbindLayer_mono)
  have "cached (add_listeners names L (layer_bindInteraction L (snd r))) l k = Some cb"
    using r by (simp add: add_listeners_mono cached_layer_ops)
  then have "cached (snd (case r of (Inl e, s0) \<Rightarrow> (Inl e, s0)
      | (Inr _, s0) \<Rightarrow>
          let s1 = layer_bindInteraction L s0;
              s2 = add_listeners names L s1
          in (case document s2 (layer_getId L s2) of
                None \<Rightarrow> (Inl TypeError, s2)
              | Some ls \<Rightarrow>
                  (Inr (),
                   s2\<lparr>document := (document s2)
                          (layer_getId L s2 \<mapsto> dom_add (''contextmenu'', PreventDefault (next_fn s2)) ls),
                      next_fn := Suc (next_fn s2),
                      boundLayers := (boundLayers s2)(g \<mapsto> L)\<rparr>))) ) l k = Some cb"
    using r by (cases r; cases "fst r") (auto simp: Let_def cached_def split: option.splits)
  then show ?thesis by (simp add: bindLayer_def r_def)
qed

lemma object_activate_store:
  "callbackStore (snd (object_activate obj b s)) = callbackStore s"
  by (cases obj) (simp_all add: object_activate_def tool_activate_def)

lemma setSelectedTool_store:
  "callbackStore (snd (setSelectedTool name s)) = callbackStore s"
proof -
  obtain r s1 where pre: "(case selectedTool s of
                 Some old \<Rightarrow> object_activate old False s
               | None \<Rightarrow> (Inr (), s)) = (r, s1)"
    by (cases "case selectedTool s of
                 Some old \<Rightarrow> object_activate old False s
               | None \<Rightarrow> (Inr (), s)")
  have s1: "callbackStore s1 = callbackStore s"
  proof (cases "selectedTool s")
    case None
    with pre show ?thesis by simp
  next
    case (Some old)
    with pre have "s1 = snd (object_activate old False s)" by simp
    then show ?thesis by (simp add: object_activate_store)
  qed
  show ?thesis
    using s1
    by (cases r; cases "lookup_tool (toolList s1) name")
       (simp_all add: setSelectedTool_def pre Let_def object_activate_store)
qed

lemma setSelectedTool_mono: "cached (snd (setSelectedTool name s)) = cached s"
  by (simp add: cached_def fun_eq_iff setSelectedTool_store)

lemma setToolFeatures_mono: "cached (snd (setToolFeatures list s)) = cached s"
  by (auto simp: setToolFeatures_def object_setFeatures_def tool_setFeatures_def cached_def
      fun_eq_iff split: option.splits js_object.splits)

lemma run_callback_mono: "cached (snd (run_callback geo cb ev s)) = cached s"
  by (auto simp: run_callback_def applySelectedTool_def call_handler_def cached_def fun_eq_iff
      split: option.splits callback.splits sum.splits)

lemma fold_tool_init_store:
  "callbackStore (fold (\<lambda>key s'. case map_of (toolList s') key of
                                 Some t \<Rightarrow> tool_init t s' | None \<Rightarrow> s') ks s) = callbackStore s"
  by (induction ks arbitrary: s) (auto simp: tool_init_def split: option.splits)

lemma init_mono: "cached s l k = Some cb \<Longrightarrow> cached (init s) l k = Some cb"
proof -
  assume a: "cached s l k = Some cb"
  define s1 where "s1 = fold (\<lambda>key s'. case map_of (toolList s') key of
                                 Some t \<Rightarrow> tool_init t s' | None \<Rightarrow> s') (map fst (toolList s)) s"
  have "cached s1 l k = Some cb"
    using a by (simp add: cached_def s1_def fold_tool_init_store)
  then have "cached (snd (getOnMouch ''window'' ''keydown'' s1)) l k = Some cb"
    by (rule getOnMouch_mono)
  then show ?thesis
    by (simp add: init_def Let_def split_def window_addEventListener_def cached_def s1_def)
qed

lemma apply_op_mono:
  "cached s l k = Some cb \<Longrightarrow> cached (apply_op names geo op s) l k = Some cb"
  by (cases op) (simp_all add: init_mono setSelectedTool_mono setToolFeatures_mono
      bindLayer_mono run_callback_mono)

lemma run_ops_mono:
  "cached s l k = Some cb \<Longrightarrow> cached (run_ops names geo ops s) l k = Some cb"
  unfolding run_ops_def
  by (induction ops arbitrary: s) (simp_all add: apply_op_mono)

lemma remove_listeners_hit:
  assumes "\<forall>k \<in> set ns. cached s (layer_id (layers s L)) k = Some (cbs k)"
  shows "remove_listeners ns L s =
     s\<lparr>layers := (layers s)
         (L := (layers s L)
            \<lparr>layer_listeners :=
               filter (\<lambda>l. l \<notin> (\<lambda>k. (k, cbs k)) ` set ns) (layer_listeners (layers s L))\<rparr>)\<rparr>"
  using assms
proof (induction ns arbitrary: s)
  case Nil
  then show ?case by simp
next
  case (Cons n ns)
  define s' where "s' = layer_removeEventListener L n (cbs n) s"
  have hit: "getOnMouch (layer_getId L s) n s = (cbs n, s)"
    using Cons.prems by (simp add: getOnMouch_hit layer_getId_def)
  have "\<forall>k \<in> set ns. cached s' (layer_id (layers s' L)) k = Some (cbs k)"
    using Cons.prems by (simp add: s'_def cached_layer_ops layer_id_layer_ops)
  then have "remove_listeners ns L s' =
     s'\<lparr>layers := (layers s')
         (L := (layers s' L)
            \<lparr>layer_listeners :=
               filter (\<lambda>l. l \<notin> (\<lambda>k. (k, cbs k)) ` set ns) (layer_listeners (layers s' L))\<rparr>)\<rparr>"
    by (rule Cons.IH)
  also have "\<dots> = s\<lparr>layers := (layers s)
         (L := (layers s L)
            \<lparr>layer_listeners :=
               filter (\<lambda>l. l \<notin> (\<lambda>k. (k, cbs k)) ` set ns)
                 (filter (\<lambda>l. l \<noteq> (n, cbs n)) (layer_listeners (layers s L)))\<rparr>)\<rparr>"
    by (simp add: s'_def layer_removeEventListener_def)
  also have "filter (\<lambda>l. l \<notin> (\<lambda>k. (k, cbs k)) ` set ns)
                   (filter (\<lambda>l. l \<noteq> (n, cbs n)) (layer_listeners (layers s L)))
                 = filter (\<lambda>l. l \<notin> (\<lambda>k. (k, cbs k)) ` set (n # ns)) (layer_listeners (layers s L))"
    by (induction "layer_listeners (layers s L)") auto
  finally have "remove_listeners ns L s' =
     s\<lparr>layers := (layers s)
         (L := (layers s L)
            \<lparr>layer_listeners :=
               filter (\<lambda>l. l \<notin> (\<lambda>k. (k, cbs k)) ` set (n # ns)) (layer_listeners (layers s L))\<rparr>)\<rparr>" .
  moreover have "remove_listeners (n # ns) L s = remove_listeners ns L s'"
    by (simp add: hit s'_def)
  ultimately show ?case by (simp only:)
qed

lemma add_listeners_hit:
  assumes "\<forall>k \<in> set ns. cached s (layer_id (layers s L)) k = Some (cbs k)"
  shows "add_listeners ns L s =
     s\<lparr>layers := (layers s)
         (L := (layers s L)
            \<lparr>layer_listeners := layer_listeners (layers s L) @ map (\<lambda>k. (k, cbs k)) ns\<rparr>)\<rparr>"
  using assms
proof (induction ns arbitrary: s)
  case Nil
  then show ?case by simp
next
  case (Cons n ns)
  define s' where "s' = layer_addEventListener L n (cbs n) s"
  have hit: "getOnMouch (layer_getId L s) n s = (cbs n, s)"
    using Cons.prems by (simp add: getOnMouch_hit layer_getId_def)
  have "\<forall>k \<in> set ns. cached s' (layer_id (layers s' L)) k = Some (cbs k)"
    using Cons.prems by (simp add: s'_def cached_layer_ops layer_id_layer_ops)
  then have "add_listeners ns L s' =
     s'\<lparr>layers := (layers s')
         (L := (layers s' L)
            \<lparr>layer_listeners := layer_listeners (layers s' L) @ map (\<lambda>k. (k, cbs k)) ns\<rparr>)\<rparr>"
    by (rule Cons.IH)
  also have "\<dots> = s\<lparr>layers := (layers s)
         (L := (layers s L)
            \<lparr>layer_listeners := layer_listeners (layers s L) @ map (\<lambda>k. (k, cbs k)) (n # ns)\<rparr>)\<rparr>"
    by (simp add: s'_def layer_addEventListener_def)
  finally have "add_listeners ns L s' =
     s\<lparr>layers := (layers s)
         (L := (layers s L)
            \<lparr>layer_listeners := layer_listeners (layers s L) @ map (\<lambda>k. (k, cbs k)) (n # ns)\<rparr>)\<rparr>" .
  moreover have "add_listeners (n # ns) L s = add_listeners ns L s'"
    by (simp add: hit s'_def)
  ultimately show ?case by (simp only:)
qed

lemma rebind_listeners:
  assumes bound: "boundLayers s g = Some L"
    and hit: "\<forall>k \<in> set ns. cached s (layer_id (layers s L)) k = Some (cbs k)"
    and ok: "bindLayer ns L g s = (Inr (), s')"
  shows "layer_listeners (layers s' L) =
           filter (\<lambda>l. l \<notin> (\<lambda>k. (k, cbs k)) ` set ns) (layer_listeners (layers s L))
           @ map (\<lambda>k. (k, cbs k)) ns"
    and "layer_id (layers s' L) = layer_id (layers s L)"
    and "callbackStore s' = callbackStore s"
proof -
  define sa where "sa = layer_unbindInteraction L s"
  define sb where "sb = remove_listeners ns L sa"
  have hit_a: "\<forall>k \<in> set ns. cached sa (layer_id (layers sa L)) k = Some (cbs k)"
    using hit by (simp add: sa_def cached_layer_ops layer_id_layer_ops)
  have sb: "sb = sa\<lparr>layers := (layers sa)
         (L := (layers sa L)
            \<lparr>layer_listeners :=
               filter (\<lambda>l. l \<notin> (\<lambda>k. (k, cbs k)) ` set ns) (layer_listeners (layers sa L))\<rparr>)\<rparr>"
    unfolding sb_def using hit_a by (rule remove_listeners_hit)
  obtain r0 s0 where u: "unbindLayer ns L s = (r0, s0)" by (cases "unbindLayer ns L s")
  have r0: "r0 = Inr ()"
    using ok bound u by (cases r0) (auto simp: bindLayer_def)
  have s0_layers: "layers s0 = layers sb" and s0_store: "callbackStore s0 = callbackStore sb"
    using u by (auto simp: unbindLayer_def Let_def sa_def sb_def split: option.splits)
  define sc where "sc = layer_bindInteraction L s0"
  define sd where "sd = add_listeners ns L sc"
  have store_sb: "callbackStore sb = callbackStore s" and id_sb: "layer_id (layers sb L) = layer_id (layers s L)"
    by (simp_all add: sb sa_def layer_unbindInteraction_def)
  have hit_c: "\<forall>k \<in> set ns. cached sc (layer_id (layers sc L)) k = Some (cbs k)"
    using hit s0_layers s0_store store_sb id_sb
    by (simp add: sc_def cached_def layer_bindInteraction_def)
  have sd: "sd = sc\<lparr>layers := (layers sc)
         (L := (layers sc L)
            \<lparr>layer_listeners := layer_listeners (layers sc L) @ map (\<lambda>k. (k, cbs k)) ns\<rparr>)\<rparr>"
    unfolding sd_def using hit_c by (rule add_listeners_hit)
  have s': "layers s' = layers sd \<and> callbackStore s' = callbackStore sd"
    using ok bound u r0
    by (auto simp: bindLayer_def Let_def sc_def sd_def split: option.splits)
  have ll: "layer_listeners (layers sd L) =
           filter (\<lambda>l. l \<notin> (\<lambda>k. (k, cbs k)) ` set ns) (layer_listeners (layers s L))
           @ map (\<lambda>k. (k, cbs k)) ns"
    by (simp add: sd sc_def layer_bindInteraction_def s0_layers sb sa_def layer_unbindInteraction_def)
  show "layer_listeners (layers s' L) =
           filter (\<lambda>l. l \<notin> (\<lambda>k. (k, cbs k)) ` set ns) (layer_listeners (layers s L))
           @ map (\<lambda>k. (k, cbs k)) ns"
    using s' ll by simp
  show "layer_id (layers s' L) = layer_id (layers s L)"
    using s' by (simp add: sd sc_def layer_bindInteraction_def s0_layers sb sa_def layer_unbindInteraction_def)
  show "callbackStore s' = callbackStore s"
    using s' by (simp add: sd sc_def layer_bindInteraction_def s0_store store_sb)
qed

lemma count_rebound:
  assumes "distinct ns" and "k \<in> set ns"
  shows "count_list (filter (\<lambda>l. l \<notin> (\<lambda>k. (k, cbs k)) ` set ns) xs @ map (\<lambda>k. (k, cbs k)) ns)
           (k, cbs k) = 1"
proof -
  have "(k, cbs k) \<notin> set (filter (\<lambda>l. l \<notin> (\<lambda>k. (k, cbs k)) ` set ns) xs)"
    using assms(2) by auto
  then have a: "count_list (filter (\<lambda>l. l \<notin> (\<lambda>k. (k, cbs k)) ` set ns) xs) (k, cbs k) = 0"
    by (simp add: count_list_0_iff)
  have "inj_on (\<lambda>k. (k, cbs k)) (set ns)" by (rule inj_onI) simp
  then have "count_list (map (\<lambda>k. (k, cbs k)) ns) (k, cbs k) = count_list ns k"
    using assms(2) by (rule count_list_inj_map)
  also have "\<dots> = 1"
    using assms by (induction ns) auto
  finally show ?thesis using a by simp
qed

lemma add_listeners_layer_id:
  "layer_id (layers (add_listeners ns L s) L') = layer_id (layers s L')"
proof (induction ns arbitrary: s)
  case Nil
  then show ?case by simp
next
  case (Cons n ns)
  show ?case
    by (simp add: split_def Let_def Cons.IH layer_id_layer_ops getOnMouch_layers)
qed

lemma add_listeners_all_cached:
  "k \<in> set ns \<Longrightarrow> cached (add_listeners ns L s) (layer_id (layers s L)) k \<noteq> None"
proof (induction ns arbitrary: s)
  case Nil
  then show ?case by simp
next
  case (Cons n ns)
  define p where "p = getOnMouch (layer_id (layers s L)) n s"
  define s' where "s' = layer_addEventListener L n (fst p) (snd p)"
  have step: "add_listeners (n # ns) L s = add_listeners ns L s'"
    by (simp add: split_def Let_def s'_def p_def layer_getId_def)
  have id: "layer_id (layers s' L) = layer_id (layers s L)"
    by (simp add: s'_def p_def layer_id_layer_ops getOnMouch_layers)
  show ?case
  proof (cases "k = n")
    case True
    have "cached s' (layer_id (layers s L)) n = Some (fst p)"
      by (simp add: s'_def p_def cached_layer_ops getOnMouch_cached)
    then have "cached (add_listeners ns L s') (layer_id (layers s L)) n = Some (fst p)"
      by (rule add_listeners_mono)
    then show ?thesis using True step by simp
  next
    case False
    then have "k \<in> set ns" using Cons.prems by simp
    then have "cached (add_listeners ns L s') (layer_id (layers s' L)) k \<noteq> None"
      by (rule Cons.IH)
    then show ?thesis using step id by simp
  qed
qed

lemma bindLayer_ok:
  assumes ok: "bindLayer ns L g s = (Inr (), s')"
  shows "boundLayers s' g = Some L"
    and "k \<in> set ns \<Longrightarrow> cached s' (layer_id (layers s' L)) k \<noteq> None"
proof -
  define r where "r = (case boundLayers s g of Some old \<Rightarrow> unbindLayer ns old s
                        | None \<Rightarrow> (Inr (), s))"
  define sa where "sa = layer_bindInteraction L (snd r)"
  define sb where "sb = add_listeners ns L sa"
  have r: "fst r = Inr ()"
    using ok by (cases r; cases "fst r") (auto simp: bindLayer_def r_def [symmetric])
  obtain ls where ls: "document sb (layer_getId L sb) = Some ls"
    using ok r
    by (cases r; cases "document sb (layer_getId L sb)")
       (auto simp: bindLayer_def r_def [symmetric] Let_def sa_def sb_def)
  have s': "s' = sb\<lparr>document := (document sb)
                     (layer_getId L sb \<mapsto> dom_add (''contextmenu'', PreventDefault (next_fn sb)) ls),
                   next_fn := Suc (next_fn sb),
                   boundLayers := (boundLayers sb)(g \<mapsto> L)\<rparr>"
    using ok r ls
    by (cases r) (auto simp: bindLayer_def r_def [symmetric] Let_def sa_def sb_def)
  show "boundLayers s' g = Some L" by (simp add: s')
  assume k: "k \<in> set ns"
  have "cached sb (layer_id (layers sa L)) k \<noteq> None"
    unfolding sb_def using k by (rule add_listeners_all_cached)
  moreover have "layer_id (layers sb L) = layer_id (layers sa L)"
    by (simp add: sb_def add_listeners_layer_id)
  ultimately show "cached s' (layer_id (layers s' L)) k \<noteq> None"
    by (simp add: s' cached_def)
qed

lemmas toolbox_eval =
  bindLayer_def unbindLayer_def getOnMouch_def layer_getId_def layer_bindInteraction_def
  layer_unbindInteraction_def layer_addEventListener_def layer_removeEventListener_def
  dom_add_def dom_remove_def 
  demo_layers_def demo_document_def demo_names_def 
  Let_def eval_nat_numeral

lemma demo_bind:
  "bindLayer demo_names 0 ''g'' demo_toolbox = (Inr (), demo_bound)"
  by (simp add: toolbox_eval demo_bound_def demo_toolbox_def new_ToolboxController_def)

lemma demo_unbind:
  "unbindLayer demo_names 0 demo_bound = (Inr (), demo_unbound)"
  by (simp add: toolbox_eval demo_bound_def demo_unbound_def)

lemma demo_rebind:
  "bindLayer demo_names 0 ''g'' demo_bound = (Inr (), demo_rebound)"
  by (simp add: toolbox_eval demo_bound_def demo_rebound_def)

text \<open>
  C8. Once the callback for a layer id and an event type has been requested, every
  later request for the pair, after any sequence of initialisations, tool
  selections, feature updates, layer bindings (with the unbinding they start) and
  dispatched events, returns the identical callback and changes nothing: no second
  callback is created. When the names of the interaction events are distinct and
  \<^verbatim>\<open>bindLayer(layer, g)\<close> succeeds twice in a row, the second call uses the
  callbacks of the first, and each of them is registered on the layer exactly once
  for its event type.
\<close>

theorem dispatcher_created_once:
  "getOnMouch layerId eventType
       (run_ops names getEventOffset ops (snd (getOnMouch layerId eventType s)))
     = (fst (getOnMouch layerId eventType s),
        run_ops names getEventOffset ops (snd (getOnMouch layerId eventType s)))
   \<and> (distinct names \<and> bindLayer names layer g s = (Inr (), s1)
        \<and> bindLayer names layer g s1 = (Inr (), s2) \<longrightarrow>
      (\<forall>k \<in> set names.
          fst (getOnMouch (layer_getId layer s2) k s2) = fst (getOnMouch (layer_getId layer s1) k s1)
        \<and> count_list (layer_listeners (layers s2 layer))
            (k, fst (getOnMouch (layer_getId layer s1) k s1)) = 1))"
proof (intro conjI impI ballI; (elim conjE)?)
  show "getOnMouch layerId eventType
       (run_ops names getEventOffset ops (snd (getOnMouch layerId eventType s)))
     = (fst (getOnMouch layerId eventType s),
        run_ops names getEventOffset ops (snd (getOnMouch layerId eventType s)))"
    by (intro getOnMouch_hit run_ops_mono getOnMouch_cached)
next
  fix k
  assume d: "distinct names" and b1: "bindLayer names layer g s = (Inr (), s1)"
    and b2: "bindLayer names layer g s1 = (Inr (), s2)" and k: "k \<in> set names"
  define cbs where "cbs = (\<lambda>k. fst (getOnMouch (layer_id (layers s1 layer)) k s1))"
  have bound: "boundLayers s1 g = Some layer" using b1 by (rule bindLayer_ok)
  have hit: "\<forall>k \<in> set names. cached s1 (layer_id (layers s1 layer)) k = Some (cbs k)"
  proof
    fix k' assume "k' \<in> set names"
    with b1 have "cached s1 (layer_id (layers s1 layer)) k' \<noteq> None" by (rule bindLayer_ok)
    then obtain cb where cb: "cached s1 (layer_id (layers s1 layer)) k' = Some cb" by auto
    then show "cached s1 (layer_id (layers s1 layer)) k' = Some (cbs k')"
      by (simp add: cbs_def getOnMouch_hit)
  qed
  note rb = rebind_listeners [OF bound hit b2]
  have "cached s2 (layer_id (layers s2 layer)) k = Some (cbs k)"
    using hit k rb(2,3) by (simp add: cached_def)
  then show "fst (getOnMouch (layer_getId layer s2) k s2) = fst (getOnMouch (layer_getId layer s1) k s1)"
    by (simp add: getOnMouch_hit layer_getId_def cbs_def)
  have "count_list (layer_listeners (layers s2 layer)) (k, cbs k) = 1"
    unfolding rb(1) using d k by (rule count_rebound)
  then show "count_list (layer_listeners (layers s2 layer))
            (k, fst (getOnMouch (layer_getId layer s1) k s1)) = 1"
    by (simp add: cbs_def layer_getId_def)
qed

theorem dispatcher_created_once_witness:
  "distinct demo_names
   \<and> bindLayer demo_names 0 ''g'' demo_toolbox = (Inr (), demo_bound)
   \<and> bindLayer demo_names 0 ''g'' demo_bound = (Inr (), demo_rebound)
   \<and> count_list (layer_listeners (layers demo_rebound 0))
         (''mousedown'', fst (getOnMouch (layer_getId 0 demo_bound) ''mousedown'' demo_bound)) = 1
   \<and> count_list (layer_listeners (layers demo_rebound 0))
         (''touchend'', fst (getOnMouch (layer_getId 0 demo_bound) ''touchend'' demo_bound)) = 1
   \<and> fst (getOnMouch (layer_getId 0 demo_rebound) ''mousedown'' demo_rebound)
       = fst (getOnMouch (layer_getId 0 demo_bound) ''mousedown'' demo_bound)
   \<and> layer_listeners (layers demo_rebound 0)
       = [(''mousedown'', OnMouch 0), (''mousemove'', OnMouch 1), (''wheel'', OnMouch 2),
          (''touchend'', OnTouchend 3)]
   \<and> getOnMouch ''layer-0'' ''wheel''
        (run_ops demo_names demo_offset [SetSelectedTool ''Scroll'', BindLayer 0 ''g'']
           (snd (getOnMouch ''layer-0'' ''wheel'' demo_toolbox)))
       = (fst (getOnMouch ''layer-0'' ''wheel'' demo_toolbox),
          run_ops demo_names demo_offset [SetSelectedTool ''Scroll'', BindLayer 0 ''g'']
           (snd (getOnMouch ''layer-0'' ''wheel'' demo_toolbox)))
   \<and> fst (getOnMouch ''layer-0'' ''wheel'' demo_toolbox) = OnMouch 0"
proof -
  have d: "distinct demo_names" by (simp add: demo_names_def)
  have m: "''mousedown'' \<in> set demo_names" "''touchend'' \<in> set demo_names"
    by (simp_all add: demo_names_def)
  have l: "layer_listeners (layers demo_rebound 0)
       = [(''mousedown'', OnMouch 0), (''mousemove'', OnMouch 1), (''wheel'', OnMouch 2),
          (''touchend'', OnTouchend 3)]"
    by (simp add: demo_rebound_def demo_bound_def)
  have f: "fst (getOnMouch ''layer-0'' ''wheel'' demo_toolbox) = OnMouch 0"
    by (simp add: getOnMouch_def demo_toolbox_def new_ToolboxController_def Let_def)
  note inst = dispatcher_created_once [of "''layer-0''" "''wheel''" demo_names demo_offset
             "[SetSelectedTool ''Scroll'', BindLayer 0 ''g'']" demo_toolbox
             0 "''g''" demo_bound demo_rebound]
  have every: "\<forall>k \<in> set demo_names.
         fst (getOnMouch (layer_getId 0 demo_rebound) k demo_rebound)
           = fst (getOnMouch (layer_getId 0 demo_bound) k demo_bound)
       \<and> count_list (layer_listeners (layers demo_rebound 0))
           (k, fst (getOnMouch (layer_getId 0 demo_bound) k demo_bound)) = 1"
    using d demo_bind demo_rebind inst by blast
  show ?thesis
    using d demo_bind demo_rebind l f inst every [rule_format, OF m(1)] every [rule_format, OF m(2)]
    by blast
qed

text \<open>
  C2 on the code. After \<^verbatim>\<open>bindLayer(layer 0, 'g')\<close> the layer holds one dispatcher
  per event name and the element of the layer one listener that suppresses the
  context menu. The internal unbind of layer 0 removes the dispatchers, but the
  context-menu listener stays, since the function handed to
  \<^verbatim>\<open>removeEventListener\<close> is a new function object: the native context menu is
  still suppressed. A second \<^verbatim>\<open>bindLayer(layer 0, 'g')\<close> leaves two context-menu
  listeners on the element.
\<close>

theorem unbind_keeps_contextmenu_listener:
  "bindLayer demo_names 0 ''g'' demo_toolbox = (Inr (), demo_bound)
   \<and> layer_listeners (layers demo_bound 0)
       = [(''mousedown'', OnMouch 0), (''mousemove'', OnMouch 1), (''wheel'', OnMouch 2),
          (''touchend'', OnTouchend 3)]
   \<and> contextmenu_listeners ''layer-0'' demo_bound = [(''contextmenu'', PreventDefault 4)]
   \<and> unbindLayer demo_names 0 demo_bound = (Inr (), demo_unbound)
   \<and> layer_listeners (layers demo_unbound 0) = []
   \<and> contextmenu_listeners ''layer-0'' demo_unbound = [(''contextmenu'', PreventDefault 4)]
   \<and> contextmenu_suppressed ''layer-0'' demo_unbound
   \<and> bindLayer demo_names 0 ''g'' demo_bound = (Inr (), demo_rebound)
   \<and> contextmenu_listeners ''layer-0'' demo_rebound
       = [(''contextmenu'', PreventDefault 4), (''contextmenu'', PreventDefault 6)]"
  by (simp add: demo_bind demo_unbind demo_rebind)
     (simp add: demo_bound_def demo_unbound_def demo_rebound_def contextmenu_listeners_def
        contextmenu_suppressed_def demo_document_def)

end
